theory Spec2Isabelle
  imports Main
begin

section \<open>Values, rows and the queues table\<close>

text \<open>
  The two scripts \<^verbatim>\<open>exec1_update_queue.py\<close> (the Updater) and
  \<^verbatim>\<open>exec2_read_queue.py\<close> (the Reader) talk to one table, \<^verbatim>\<open>queues\<close>, through
  the psycopg2 driver. A Python value that reaches the scripts is \<open>None\<close>, an integer, a
  string or a timestamp. Strings are byte lists, a character outside ASCII being its UTF-8
  bytes.
\<close>

datatype pyval = PNone | PInt int | PStr string | PTime int

text \<open>
  A row of \<^verbatim>\<open>queues\<close> without its primary key \<^verbatim>\<open>id\<close>; the table maps the key to the
  row, so that a key identifies at most one row. Timestamps are integers (ticks of the
  server clock).
\<close>

record queue_row =
  clinic_id :: int
  queue_status :: string
  created_at :: int
  updated_at :: int

type_synonym table = "int \<rightharpoonup> queue_row"

section \<open>Exceptions, console output and driver calls\<close>

text \<open>
  \<open>DbError\<close> is an instance of \<^verbatim>\<open>psycopg2.Error\<close>, \<open>OtherError\<close> an instance of any
  other subclass of \<^verbatim>\<open>Exception\<close>; each carries the text that \<^verbatim>\<open>str(e)\<close> gives. The
  first matches the clause \<^verbatim>\<open>except psycopg2.Error\<close>, the second only
  \<^verbatim>\<open>except Exception\<close>.
\<close>

datatype exn = DbError string | OtherError string

text \<open>
  A printed line is the list of the pieces of its f-string: literal text and formatted
  values. What the scripts do to the outside world is recorded as a trace of events, one
  per call of \<^verbatim>\<open>print\<close> and one per call into the driver; \<open>NoneCall m\<close> records an
  attempt to call method \<open>m\<close> on a variable that holds \<open>None\<close>.
\<close>

datatype piece = Lit string | Val pyval

datatype event =
    Print "piece list"
  | Connect string int
  | Cursor
  | Execute string "pyval list"
  | Fetchone
  | Commit
  | Rollback
  | CursorClose
  | ConnClose
  | NoneCall string

text \<open>The two statements the scripts send, with the text the source passes to the driver.\<close>

datatype sql = Update_queues | Select_queues

definition nl :: string where
  "nl = [CHR 0x0A]"

definition sq :: string where
  "sq = [CHR 0x27]"

definition update_query :: string where
  "update_query = concat
     [nl, ''            UPDATE queues'',
      nl, ''            SET queue_status = %s, updated_at = NOW()'',
      nl, ''            WHERE id = %s'',
      nl, ''            RETURNING id, clinic_id, queue_status, updated_at'',
      nl, ''        '']"

definition select_query :: string where
  "select_query = concat
     [nl, ''            SELECT id, clinic_id, queue_status, created_at, updated_at'',
      nl, ''            FROM queues'',
      nl, ''            WHERE id = %s'',
      nl, ''        '']"

fun sql_text :: "sql \<Rightarrow> string" where
  "sql_text Update_queues = update_query"
| "sql_text Select_queues = select_query"

text \<open>
  What the database server does with each statement on the table \<open>t\<close> at server time
  \<open>now\<close>: the new table and the rows returned. \<^verbatim>\<open>UPDATE ... WHERE id = %s RETURNING\<close>
  rewrites the two columns of the row with that key, if there is one, and returns its new
  values; \<^verbatim>\<open>SELECT ... WHERE id = %s\<close> returns the row and changes nothing. Parameters
  of another shape are rejected by the driver.
\<close>

fun server_execute :: "sql \<Rightarrow> pyval list \<Rightarrow> int \<Rightarrow> table \<Rightarrow> exn + (table \<times> pyval list list)" where
  "server_execute Update_queues [PStr st, PInt i] now t =
     (case t i of
        None \<Rightarrow> Inr (t, [])
      | Some r \<Rightarrow>
          Inr (t(i \<mapsto> r\<lparr>queue_status := st, updated_at := now\<rparr>),
               [[PInt i, PInt (clinic_id r), PStr st, PTime now]]))"
| "server_execute Select_queues [PInt i] now t =
     (case t i of
        None \<Rightarrow> Inr (t, [])
      | Some r \<Rightarrow>
          Inr (t, [[PInt i, PInt (clinic_id r), PStr (queue_status r),
                    PTime (created_at r), PTime (updated_at r)]]))"
| "server_execute q ps now t = Inl (DbError ''ProgrammingError'')"

section \<open>The environment and the state of a run\<close>

text \<open>
  Everything a run cannot decide by itself is given by the environment: the client's
  formatted clock, the server's clock (the value of \<^verbatim>\<open>NOW()\<close>), and for each driver call
  that reaches the server whether it succeeds (\<open>None\<close>) or raises;
  \<^verbatim>\<open>conn.rollback()\<close> is such a call, and raises for instance on a connection that
  the server has dropped. The calls that only release a client-side handle
  (\<^verbatim>\<open>cursor.close()\<close>, \<^verbatim>\<open>conn.close()\<close>) and \<^verbatim>\<open>print\<close> are taken to succeed.
  A failing \<^verbatim>\<open>commit\<close> is taken to commit nothing.
\<close>

record env =
  client_now :: string
  server_now :: int
  connect_res :: "exn option"
  cursor_res :: "exn option"
  execute_res :: "exn option"
  fetchone_res :: "exn option"
  commit_res :: "exn option"
  rollback_res :: "exn option"

datatype handle = Handle

text \<open>
  The state of a run: the local variables \<^verbatim>\<open>conn\<close> and \<^verbatim>\<open>cursor\<close> (read by the
  handlers and the \<^verbatim>\<open>finally\<close> block), the committed table, the table as the open
  transaction sees it, whether the connection and the cursor are open, the rows the cursor
  still holds, and the trace.
\<close>

record state =
  conn :: "handle option"
  cursor :: "handle option"
  committed :: table
  pending :: table
  conn_open :: bool
  cursor_open :: bool
  rows :: "pyval list list"
  trace :: "event list"

type_synonym 'a prog = "state \<Rightarrow> (exn + 'a) \<times> state"

definition return_se :: "'a \<Rightarrow> 'a prog" where
  "return_se x = (\<lambda>s. (Inr x, s))"

definition raise_se :: "exn \<Rightarrow> 'a prog" where
  "raise_se e = (\<lambda>s. (Inl e, s))"

definition bind_se :: "'a prog \<Rightarrow> ('a \<Rightarrow> 'b prog) \<Rightarrow> 'b prog" where
  "bind_se m f = (\<lambda>s. case m s of (Inl e, s') \<Rightarrow> (Inl e, s') | (Inr x, s') \<Rightarrow> f x s')"

definition seq :: "unit prog \<Rightarrow> 'b prog \<Rightarrow> 'b prog" where
  "seq m n = bind_se m (\<lambda>_. n)"

definition emit :: "event \<Rightarrow> state \<Rightarrow> state" where
  "emit ev s = s\<lparr>trace := trace s @ [ev]\<rparr>"

definition print :: "piece list \<Rightarrow> unit prog" where
  "print ps = (\<lambda>s. (Inr (), emit (Print ps) s))"

fun prints :: "piece list list \<Rightarrow> unit prog" where
  "prints [] = return_se ()"
| "prints (l # ls) = seq (print l) (prints ls)"

definition none_call :: "string \<Rightarrow> 'a prog" where
  "none_call m = (\<lambda>s. (Inl (OtherError ''AttributeError''), emit (NoneCall m) s))"

definition DB_HOST :: string where
  "DB_HOST = ''aws-1-ap-southeast-1.pooler.supabase.com''"

definition DB_PORT :: int where
  "DB_PORT = 6543"

definition psycopg2_connect :: "env \<Rightarrow> handle prog" where
  "psycopg2_connect env = (\<lambda>s.
     let s1 = emit (Connect DB_HOST DB_PORT) s in
     case connect_res env of
       Some e \<Rightarrow> (Inl e, s1)
     | None \<Rightarrow> (Inr Handle, s1\<lparr>pending := committed s1, conn_open := True\<rparr>))"

definition assign_conn :: "handle \<Rightarrow> unit prog" where
  "assign_conn c = (\<lambda>s. (Inr (), s\<lparr>conn := Some c\<rparr>))"

definition assign_cursor :: "handle \<Rightarrow> unit prog" where
  "assign_cursor c = (\<lambda>s. (Inr (), s\<lparr>cursor := Some c\<rparr>))"

definition conn_cursor :: "env \<Rightarrow> handle prog" where
  "conn_cursor env = (\<lambda>s.
     case conn s of
       None \<Rightarrow> none_call ''cursor'' s
     | Some _ \<Rightarrow>
         (let s1 = emit Cursor s in
          case cursor_res env of
            Some e \<Rightarrow> (Inl e, s1)
          | None \<Rightarrow> (Inr Handle, s1\<lparr>cursor_open := True\<rparr>)))"

definition cursor_execute :: "env \<Rightarrow> sql \<Rightarrow> pyval list \<Rightarrow> unit prog" where
  "cursor_execute env q ps = (\<lambda>s.
     case cursor s of
       None \<Rightarrow> none_call ''execute'' s
     | Some _ \<Rightarrow>
         (let s1 = emit (Execute (sql_text q) ps) s in
          case execute_res env of
            Some e \<Rightarrow> (Inl e, s1)
          | None \<Rightarrow>
              (case server_execute q ps (server_now env) (pending s1) of
                 Inl e \<Rightarrow> (Inl e, s1)
               | Inr (t, rs) \<Rightarrow> (Inr (), s1\<lparr>pending := t, rows := rs\<rparr>))))"

definition cursor_fetchone :: "env \<Rightarrow> (pyval list option) prog" where
  "cursor_fetchone env = (\<lambda>s.
     case cursor s of
       None \<Rightarrow> none_call ''fetchone'' s
     | Some _ \<Rightarrow>
         (let s1 = emit Fetchone s in
          case fetchone_res env of
            Some e \<Rightarrow> (Inl e, s1)
          | None \<Rightarrow>
              (case rows s1 of
                 [] \<Rightarrow> (Inr None, s1)
               | r # rs \<Rightarrow> (Inr (Some r), s1\<lparr>rows := rs\<rparr>))))"

definition conn_commit :: "env \<Rightarrow> unit prog" where
  "conn_commit env = (\<lambda>s.
     case conn s of
       None \<Rightarrow> none_call ''commit'' s
     | Some _ \<Rightarrow>
         (let s1 = emit Commit s in
          case commit_res env of
            Some e \<Rightarrow> (Inl e, s1)
          | None \<Rightarrow> (Inr (), s1\<lparr>committed := pending s1\<rparr>)))"

definition conn_rollback :: "env \<Rightarrow> unit prog" where
  "conn_rollback env = (\<lambda>s.
     case conn s of
       None \<Rightarrow> none_call ''rollback'' s
     | Some _ \<Rightarrow>
         (let s1 = emit Rollback s in
          case rollback_res env of
            Some e \<Rightarrow> (Inl e, s1)
          | None \<Rightarrow> (Inr (), s1\<lparr>pending := committed s1\<rparr>)))"

definition cursor_close :: "unit prog" where
  "cursor_close = (\<lambda>s.
     case cursor s of
       None \<Rightarrow> none_call ''close'' s
     | Some _ \<Rightarrow> (Inr (), (emit CursorClose s)\<lparr>cursor_open := False, rows := []\<rparr>))"

definition conn_close :: "unit prog" where
  "conn_close = (\<lambda>s.
     case conn s of
       None \<Rightarrow> none_call ''close'' s
     | Some _ \<Rightarrow>
         (let s1 = emit ConnClose s in
          (Inr (), s1\<lparr>pending := committed s1, conn_open := False\<rparr>)))"

section \<open>Python's truth test, subscript and unpacking\<close>

text \<open>
  \<^verbatim>\<open>if result:\<close> holds for a tuple that is not empty and fails for \<open>None\<close>;
  \<^verbatim>\<open>if conn:\<close> and \<^verbatim>\<open>if cursor:\<close> hold for every driver object. \<^verbatim>\<open>result[i]\<close>
  raises out of range, and unpacking into five names raises on any other width.
\<close>

fun truthy :: "pyval list option \<Rightarrow> bool" where
  "truthy None = False"
| "truthy (Some t) = (t \<noteq> [])"

definition subscript :: "pyval list option \<Rightarrow> nat \<Rightarrow> pyval prog" where
  "subscript r i =
     (case r of
        None \<Rightarrow> raise_se (OtherError ''TypeError'')
      | Some t \<Rightarrow> if i < length t then return_se (t ! i) else raise_se (OtherError ''IndexError''))"

fun unpack5 :: "pyval list option \<Rightarrow> (pyval \<times> pyval \<times> pyval \<times> pyval \<times> pyval) prog" where
  "unpack5 (Some [a, b, c, d, e]) = return_se (a, b, c, d, e)"
| "unpack5 None = raise_se (OtherError ''TypeError'')"
| "unpack5 (Some t) = raise_se (OtherError ''ValueError'')"

definition when_conn :: "unit prog \<Rightarrow> unit prog" where
  "when_conn m = (\<lambda>s. if conn s \<noteq> None then m s else (Inr (), s))"

definition when_cursor :: "unit prog \<Rightarrow> unit prog" where
  "when_cursor m = (\<lambda>s. if cursor s \<noteq> None then m s else (Inr (), s))"

text \<open>
  \<^verbatim>\<open>try: body  except ...: handler  finally: fin\<close>. An exception of the body goes to the
  handler; an exception of the handler is not caught again; the \<^verbatim>\<open>finally\<close> block runs
  in every case, and the pending return value or exception continues after it unless
  the block itself raises.
\<close>

definition try_except_finally :: "'a prog \<Rightarrow> (exn \<Rightarrow> 'a prog) \<Rightarrow> unit prog \<Rightarrow> 'a prog" where
  "try_except_finally body handler fin = (\<lambda>s.
     let (r1, s1) = body s;
         (r2, s2) = (case r1 of Inr v \<Rightarrow> (Inr v, s1) | Inl e \<Rightarrow> handler e s1);
         (r3, s3) = fin s2
     in case r3 of Inl e \<Rightarrow> (Inl e, s3) | Inr _ \<Rightarrow> (r2, s3))"

definition banner :: "piece list" where
  "banner = [Lit (replicate 80 (CHR ''=''))]"

definition check_mark :: string where
  "check_mark = [CHR 0xE2, CHR 0x9C, CHR 0x93]"

definition white_check_mark :: string where
  "white_check_mark = [CHR 0xE2, CHR 0x9C, CHR 0x85]"

definition cross_mark :: string where
  "cross_mark = [CHR 0xE2, CHR 0x9D, CHR 0x8C]"

definition finally_block :: "unit prog" where
  "finally_block =
     seq (when_cursor cursor_close)
         (when_conn (seq conn_close (print [Lit (''Connection closed'' @ nl)])))"

definition init_state :: "table \<Rightarrow> state" where
  "init_state db =
     \<lparr>conn = None, cursor = None, committed = db, pending = db,
      conn_open = False, cursor_open = False, rows = [], trace = []\<rparr>"

datatype outcome = Returned bool | Raised exn

definition outcome_of :: "(exn + bool) \<times> state \<Rightarrow> outcome \<times> state" where
  "outcome_of p = (case p of (Inr b, s) \<Rightarrow> (Returned b, s) | (Inl e, s) \<Rightarrow> (Raised e, s))"

section \<open>The Updater: \<^verbatim>\<open>update_queue_to_paused\<close>\<close>

definition print_field :: "string \<Rightarrow> pyval list option \<Rightarrow> nat \<Rightarrow> unit prog" where
  "print_field label r i = bind_se (subscript r i) (\<lambda>v. print [Lit label, Val v])"

definition no_rows_line :: "piece list" where
  "no_rows_line = [Lit (cross_mark @ '' UPDATE FAILED - No rows returned'')]"

definition update_try :: "env \<Rightarrow> bool prog" where
  "update_try env =
     seq (prints
            [banner,
             [Lit ''EXECUTABLE 1: UPDATE QUEUE 24 TO PAUSED''],
             banner,
             [Lit ''Timestamp: '', Val (PStr (client_now env)), Lit nl],
             [Lit ''Connecting to '', Val (PStr DB_HOST), Lit '':'', Val (PInt DB_PORT), Lit ''...'']])
    (bind_se (psycopg2_connect env) (\<lambda>c.
     seq (assign_conn c)
    (seq (print [Lit (check_mark @ '' Connected'' @ nl)])
    (bind_se (conn_cursor env) (\<lambda>k.
     seq (assign_cursor k)
    (seq (prints
            [[Lit ''Executing UPDATE query...''],
             [Lit (''SQL: UPDATE queues SET queue_status = '' @ sq @ ''PAUSED'' @ sq @
                   '', updated_at = NOW() WHERE id = 24'')],
             []])
    (seq (cursor_execute env Update_queues [PStr ''PAUSED'', PInt 24])
    (bind_se (cursor_fetchone env) (\<lambda>result.
     seq (conn_commit env)
     (if truthy result then
        seq (print [Lit (white_check_mark @ '' UPDATE SUCCESSFUL!'')])
       (seq (print_field ''   Queue ID:      '' result 0)
       (seq (print_field ''   Clinic ID:     '' result 1)
       (seq (print_field ''   Queue Status:  '' result 2)
       (seq (print_field ''   Updated At:    '' result 3)
       (seq (prints
               [[],
                banner,
                [Lit ''RESULT: SUCCESS - Queue 24 updated to PAUSED''],
                banner])
            (return_se True))))))
      else
        seq (print no_rows_line)
            (return_se False)))))))))))"

fun update_handler :: "env \<Rightarrow> exn \<Rightarrow> bool prog" where
  "update_handler env (DbError m) =
     seq (print [Lit (cross_mark @ '' DATABASE ERROR: ''), Val (PStr m)])
    (seq (when_conn (conn_rollback env))
         (return_se False))"
| "update_handler env (OtherError m) =
     seq (print [Lit (cross_mark @ '' ERROR: ''), Val (PStr m)])
    (seq (when_conn (conn_rollback env))
         (return_se False))"

definition update_queue_to_paused :: "env \<Rightarrow> table \<Rightarrow> outcome \<times> state" where
  "update_queue_to_paused env db =
     outcome_of (try_except_finally (update_try env) (update_handler env) finally_block
                   (init_state db))"

section \<open>The Reader: \<^verbatim>\<open>read_queue_status\<close>\<close>

definition not_found_line :: "piece list" where
  "not_found_line = [Lit (cross_mark @ '' Queue ID 24 not found'')]"

definition mismatch_line :: "pyval \<Rightarrow> piece list" where
  "mismatch_line v =
     [Lit (cross_mark @ '' VERIFICATION FAILED - Queue status is '' @ sq), Val v,
      Lit (sq @ '', NOT '' @ sq @ ''PAUSED'' @ sq)]"

definition read_try :: "env \<Rightarrow> bool prog" where
  "read_try env =
     seq (prints
            [banner,
             [Lit ''EXECUTABLE 2: READ QUEUE 24 STATUS''],
             banner,
             [Lit ''Timestamp: '', Val (PStr (client_now env)), Lit nl],
             [Lit ''Connecting to '', Val (PStr DB_HOST), Lit '':'', Val (PInt DB_PORT), Lit ''...'']])
    (bind_se (psycopg2_connect env) (\<lambda>c.
     seq (assign_conn c)
    (seq (print [Lit (check_mark @ '' Connected'' @ nl)])
    (bind_se (conn_cursor env) (\<lambda>k.
     seq (assign_cursor k)
    (seq (prints
            [[Lit ''Executing SELECT query...''],
             [Lit ''SQL: SELECT id, clinic_id, queue_status, created_at, updated_at FROM queues WHERE id = 24''],
             []])
    (seq (cursor_execute env Select_queues [PInt 24])
    (bind_se (cursor_fetchone env) (\<lambda>result.
     if truthy result then
       bind_se (unpack5 result) (\<lambda>(queue_id, clinic_id, queue_status, created_at, updated_at).
       seq (prints
              [[Lit (check_mark @ '' RECORD FOUND:'')],
               [Lit ''   Queue ID:      '', Val queue_id],
               [Lit ''   Clinic ID:     '', Val clinic_id],
               [Lit ''   Queue Status:  '', Val queue_status],
               [Lit ''   Created At:    '', Val created_at],
               [Lit ''   Updated At:    '', Val updated_at],
               [],
               banner])
       (if queue_status = PStr ''PAUSED'' then
          seq (prints
                 [[Lit (white_check_mark @ '' VERIFICATION SUCCESSFUL - Queue status is PAUSED'')],
                  banner])
              (return_se True)
        else
          seq (prints [mismatch_line queue_status, banner])
              (return_se False)))
     else
       seq (print not_found_line)
           (return_se False))))))))))"

fun read_handler :: "exn \<Rightarrow> bool prog" where
  "read_handler (DbError m) =
     seq (print [Lit (cross_mark @ '' DATABASE ERROR: ''), Val (PStr m)])
         (return_se False)"
| "read_handler (OtherError m) =
     seq (print [Lit (cross_mark @ '' ERROR: ''), Val (PStr m)])
         (return_se False)"

definition read_queue_status :: "env \<Rightarrow> table \<Rightarrow> outcome \<times> state" where
  "read_queue_status env db =
     outcome_of (try_except_finally (read_try env) read_handler finally_block
                   (init_state db))"

section \<open>The scripts as processes\<close>

text \<open>
  \<^verbatim>\<open>success = f(); exit(0 if success else 1)\<close>. An exception that leaves \<open>f\<close> leaves
  the script too; the interpreter then prints a traceback and ends the process with
  status 1.
\<close>

datatype process_end = Exit int | Uncaught exn

fun main_block :: "outcome \<Rightarrow> process_end" where
  "main_block (Returned success) = Exit (if success then 0 else 1)"
| "main_block (Raised e) = Uncaught e"

fun exit_status :: "process_end \<Rightarrow> int" where
  "exit_status (Exit n) = n"
| "exit_status (Uncaught e) = 1"

definition updater_main :: "env \<Rightarrow> table \<Rightarrow> process_end" where
  "updater_main env db = main_block (fst (update_queue_to_paused env db))"

definition reader_main :: "env \<Rightarrow> table \<Rightarrow> process_end" where
  "reader_main env db = main_block (fst (read_queue_status env db))"

section \<open>Observations of a run\<close>

text \<open>
  The driver calls of a run in their order (the trace without the printed lines), the
  statements sent to the server, and the try-block calls that can fail.
\<close>

fun is_print :: "event \<Rightarrow> bool" where
  "is_print (Print ps) = True"
| "is_print ev = False"

definition driver_calls :: "state \<Rightarrow> event list" where
  "driver_calls s = filter (\<lambda>ev. \<not> is_print ev) (trace s)"

fun executes :: "event list \<Rightarrow> (string \<times> pyval list) list" where
  "executes [] = []"
| "executes (Execute q ps # evs) = (q, ps) # executes evs"
| "executes (ev # evs) = executes evs"

definition reads_succeed :: "env \<Rightarrow> bool" where
  "reads_succeed env \<longleftrightarrow>
     connect_res env = None \<and> cursor_res env = None \<and> execute_res env = None \<and>
     fetchone_res env = None"

definition all_succeed :: "env \<Rightarrow> bool" where
  "all_succeed env \<longleftrightarrow> reads_succeed env \<and> commit_res env = None"

text \<open>
  The order of the driver calls of each script, by the first call that fails: after a
  failure the Updater's handler rolls back if the connection exists, and the
  \<^verbatim>\<open>finally\<close> block closes what exists.
\<close>

definition update_calls :: "env \<Rightarrow> event list" where
  "update_calls env =
     Connect DB_HOST DB_PORT #
     (if connect_res env \<noteq> None then []
      else Cursor #
        (if cursor_res env \<noteq> None then [Rollback, ConnClose]
         else Execute update_query [PStr ''PAUSED'', PInt 24] #
           (if execute_res env \<noteq> None then [Rollback, CursorClose, ConnClose]
            else Fetchone #
              (if fetchone_res env \<noteq> None then [Rollback, CursorClose, ConnClose]
               else Commit #
                 (if commit_res env \<noteq> None then [Rollback, CursorClose, ConnClose]
                  else [CursorClose, ConnClose])))))"

definition read_calls :: "env \<Rightarrow> event list" where
  "read_calls env =
     Connect DB_HOST DB_PORT #
     (if connect_res env \<noteq> None then []
      else Cursor #
        (if cursor_res env \<noteq> None then [ConnClose]
         else Execute select_query [PInt 24] #
           (if execute_res env \<noteq> None then [CursorClose, ConnClose]
            else [Fetchone, CursorClose, ConnClose])))"

text \<open>
  The statements as the specification writes them: one line, one blank between words,
  \<^verbatim>\<open>?\<close> for a placeholder. \<open>normalise_sql\<close> brings the text of the source to that
  form: it writes \<^verbatim>\<open>?\<close> for the driver's placeholder \<^verbatim>\<open>%s\<close> and one blank for
  every run of blanks and line breaks, dropping those at both ends.
\<close>

definition spec_update_statement :: string where
  "spec_update_statement =
     ''UPDATE queues SET queue_status = ?, updated_at = NOW() WHERE id = ? RETURNING id, clinic_id, queue_status, updated_at''"

definition spec_select_statement :: string where
  "spec_select_statement =
     ''SELECT id, clinic_id, queue_status, created_at, updated_at FROM queues WHERE id = ?''"

fun qmark :: "string \<Rightarrow> string" where
  "qmark [] = []"
| "qmark [c] = [c]"
| "qmark (c # d # cs) =
     (if c = CHR ''%'' \<and> d = CHR ''s'' then CHR ''?'' # qmark cs else c # qmark (d # cs))"

definition is_blank :: "char \<Rightarrow> bool" where
  "is_blank c \<longleftrightarrow> c = CHR '' '' \<or> c = CHR 0x0A"

fun tokens :: "string \<Rightarrow> string \<Rightarrow> string list" where
  "tokens w [] = (if w = [] then [] else [rev w])"
| "tokens w (c # cs) =
     (if is_blank c then (if w = [] then tokens [] cs else rev w # tokens [] cs)
      else tokens (c # w) cs)"

fun unwords :: "string list \<Rightarrow> string" where
  "unwords [] = []"
| "unwords [w] = w"
| "unwords (w # v # ws) = w @ '' '' @ unwords (v # ws)"

definition normalise_sql :: "string \<Rightarrow> string" where
  "normalise_sql q = unwords (tokens [] (qmark q))"

text \<open>Concrete inputs: an environment in which every call succeeds, and one row.\<close>

definition env_all_ok :: env where
  "env_all_ok =
     \<lparr>client_now = ''2025-01-01 00:00:00'', server_now = 100, connect_res = None,
      cursor_res = None, execute_res = None, fetchone_res = None, commit_res = None,
      rollback_res = None\<rparr>"

definition row_active :: queue_row where
  "row_active = \<lparr>clinic_id = 7, queue_status = ''ACTIVE'', created_at = 1, updated_at = 2\<rparr>"

text \<open>Which events open a connection, and which open a cursor.\<close>

fun is_connect :: "event \<Rightarrow> bool" where
  "is_connect (Connect h p) = True"
| "is_connect ev = False"

fun is_cursor :: "event \<Rightarrow> bool" where
  "is_cursor Cursor = True"
| "is_cursor ev = False"

text \<open>
  Two more environments. In the first the server drops the connection while the statement
  runs, so that the later \<^verbatim>\<open>rollback\<close> on the dead connection raises as well; in the
  second the server cannot be reached at all.
\<close>

definition env_connection_lost :: env where
  "env_connection_lost =
     env_all_ok\<lparr>execute_res := Some (DbError ''server closed the connection unexpectedly''),
                rollback_res := Some (DbError ''connection already closed'')\<rparr>"

definition env_unreachable :: env where
  "env_unreachable =
     env_all_ok\<lparr>connect_res := Some (DbError ''could not connect to server''),
                rollback_res := Some (DbError ''connection already closed'')\<rparr>"

section \<open>Running the scripts symbolically\<close>

lemmas run_defs = update_queue_to_paused_def read_queue_status_def outcome_of_def
  try_except_finally_def update_try_def read_try_def finally_block_def bind_se_def seq_def
  return_se_def raise_se_def print_def emit_def none_call_def psycopg2_connect_def
  assign_conn_def assign_cursor_def conn_cursor_def cursor_execute_def cursor_fetchone_def
  conn_commit_def conn_rollback_def cursor_close_def conn_close_def when_conn_def
  when_cursor_def init_state_def print_field_def subscript_def Let_def driver_calls_def

lemmas succeed_defs = all_succeed_def reads_succeed_def

text \<open>A run is decided by the first call of the try block that fails, if any.\<close>

lemma try_cases [case_names connect_fails cursor_fails execute_fails fetchone_fails commit_fails succeed]:
  obtains e where "connect_res env = Some e"
  | e where "connect_res env = None" "cursor_res env = Some e"
  | e where "connect_res env = None" "cursor_res env = None" "execute_res env = Some e"
  | e where "connect_res env = None" "cursor_res env = None" "execute_res env = None"
      "fetchone_res env = Some e"
  | e where "connect_res env = None" "cursor_res env = None" "execute_res env = None"
      "fetchone_res env = None" "commit_res env = Some e"
  | "connect_res env = None" "cursor_res env = None" "execute_res env = None"
      "fetchone_res env = None" "commit_res env = None"
  by (cases "connect_res env"; cases "cursor_res env"; cases "execute_res env";
      cases "fetchone_res env"; cases "commit_res env") auto

lemma read_cases [case_names connect_fails cursor_fails execute_fails fetchone_fails succeed]:
  obtains e where "connect_res env = Some e"
  | e where "connect_res env = None" "cursor_res env = Some e"
  | e where "connect_res env = None" "cursor_res env = None" "execute_res env = Some e"
  | e where "connect_res env = None" "cursor_res env = None" "execute_res env = None"
      "fetchone_res env = Some e"
  | "connect_res env = None" "cursor_res env = None" "execute_res env = None"
      "fetchone_res env = None"
  by (cases "connect_res env"; cases "cursor_res env"; cases "execute_res env";
      cases "fetchone_res env") auto

subsection \<open>The Updater\<close>

lemma update_driver_calls:
  "driver_calls (snd (update_queue_to_paused env db)) = update_calls env"
proof (cases rule: try_cases [of env])
  case (connect_fails e)
  then show ?thesis by (cases e) (simp_all add: run_defs update_calls_def)
next
  case (cursor_fails e)
  then show ?thesis
    by (cases e; cases "rollback_res env") (simp_all add: run_defs update_calls_def)
next
  case (execute_fails e)
  then show ?thesis
    by (cases e; cases "rollback_res env") (simp_all add: run_defs update_calls_def)
next
  case (fetchone_fails e)
  then show ?thesis
    by (cases e; cases "rollback_res env"; cases "db 24")
       (simp_all add: run_defs update_calls_def)
next
  case (commit_fails e)
  then show ?thesis
    by (cases e; cases "rollback_res env"; cases "db 24")
       (simp_all add: run_defs update_calls_def)
next
  case succeed
  then show ?thesis
    by (cases "db 24") (simp_all add: run_defs update_calls_def)
qed

lemma update_outcome:
  "fst (update_queue_to_paused env db) =
     (if all_succeed env then Returned (db 24 \<noteq> None)
      else if connect_res env \<noteq> None then Returned False
      else (case rollback_res env of None \<Rightarrow> Returned False | Some e \<Rightarrow> Raised e))"
proof (cases rule: try_cases [of env])
  case (connect_fails e)
  then show ?thesis
    by (cases e) (simp_all add: run_defs succeed_defs)
next
  case (cursor_fails e)
  then show ?thesis
    by (cases e; cases "rollback_res env") (simp_all add: run_defs succeed_defs)
next
  case (execute_fails e)
  then show ?thesis
    by (cases e; cases "rollback_res env") (simp_all add: run_defs succeed_defs)
next
  case (fetchone_fails e)
  then show ?thesis
    by (cases e; cases "rollback_res env"; cases "db 24")
       (simp_all add: run_defs succeed_defs)
next
  case (commit_fails e)
  then show ?thesis
    by (cases e; cases "rollback_res env"; cases "db 24")
       (simp_all add: run_defs succeed_defs)
next
  case succeed
  then show ?thesis
    by (cases "db 24") (simp_all add: run_defs succeed_defs)
qed

lemma update_committed:
  "committed (snd (update_queue_to_paused env db)) =
     (if all_succeed env
      then (case db 24 of
              None \<Rightarrow> db
            | Some r \<Rightarrow> db(24 \<mapsto> r\<lparr>queue_status := ''PAUSED'', updated_at := server_now env\<rparr>))
      else db)"
proof (cases rule: try_cases [of env])
  case (connect_fails e)
  then show ?thesis
    by (cases e) (simp_all add: run_defs succeed_defs)
next
  case (cursor_fails e)
  then show ?thesis
    by (cases e; cases "rollback_res env") (simp_all add: run_defs succeed_defs)
next
  case (execute_fails e)
  then show ?thesis
    by (cases e; cases "rollback_res env") (simp_all add: run_defs succeed_defs)
next
  case (fetchone_fails e)
  then show ?thesis
    by (cases e; cases "rollback_res env"; cases "db 24")
       (simp_all add: run_defs succeed_defs)
next
  case (commit_fails e)
  then show ?thesis
    by (cases e; cases "rollback_res env"; cases "db 24")
       (simp_all add: run_defs succeed_defs)
next
  case succeed
  then show ?thesis
    by (cases "db 24") (simp_all add: run_defs succeed_defs)
qed

lemma update_closed:
  "\<not> conn_open (snd (update_queue_to_paused env db)) \<and>
   \<not> cursor_open (snd (update_queue_to_paused env db))"
proof (cases rule: try_cases [of env])
  case (connect_fails e)
  then show ?thesis
    by (cases e) (simp_all add: run_defs)
next
  case (cursor_fails e)
  then show ?thesis
    by (cases e; cases "rollback_res env") (simp_all add: run_defs)
next
  case (execute_fails e)
  then show ?thesis
    by (cases e; cases "rollback_res env") (simp_all add: run_defs)
next
  case (fetchone_fails e)
  then show ?thesis
    by (cases e; cases "rollback_res env"; cases "db 24") (simp_all add: run_defs)
next
  case (commit_fails e)
  then show ?thesis
    by (cases e; cases "rollback_res env"; cases "db 24") (simp_all add: run_defs)
next
  case succeed
  then show ?thesis
    by (cases "db 24") (simp_all add: run_defs)
qed

subsection \<open>The Reader\<close>

lemma read_driver_calls:
  "driver_calls (snd (read_queue_status env db)) = read_calls env"
proof (cases rule: read_cases [of env])
  case (connect_fails e)
  then show ?thesis by (cases e) (simp_all add: run_defs read_calls_def)
next
  case (cursor_fails e)
  then show ?thesis by (cases e) (simp_all add: run_defs read_calls_def)
next
  case (execute_fails e)
  then show ?thesis by (cases e) (simp_all add: run_defs read_calls_def)
next
  case (fetchone_fails e)
  then show ?thesis
    by (cases e; cases "db 24") (simp_all add: run_defs read_calls_def)
next
  case succeed
  then show ?thesis
    by (cases "db 24") (simp_all add: run_defs read_calls_def)
qed

lemma read_outcome:
  "fst (read_queue_status env db) =
     Returned (reads_succeed env \<and>
               (case db 24 of None \<Rightarrow> False | Some r \<Rightarrow> queue_status r = ''PAUSED''))"
proof (cases rule: read_cases [of env])
  case (connect_fails e)
  then show ?thesis by (cases e) (simp_all add: run_defs succeed_defs)
next
  case (cursor_fails e)
  then show ?thesis by (cases e) (simp_all add: run_defs succeed_defs)
next
  case (execute_fails e)
  then show ?thesis by (cases e) (simp_all add: run_defs succeed_defs)
next
  case (fetchone_fails e)
  then show ?thesis
    by (cases e; cases "db 24") (simp_all add: run_defs succeed_defs)
next
  case succeed
  then show ?thesis
    by (cases "db 24") (simp_all add: run_defs succeed_defs)
qed

lemma read_committed:
  "committed (snd (read_queue_status env db)) = db"
proof (cases rule: read_cases [of env])
  case (connect_fails e)
  then show ?thesis by (cases e) (simp_all add: run_defs)
next
  case (cursor_fails e)
  then show ?thesis by (cases e) (simp_all add: run_defs)
next
  case (execute_fails e)
  then show ?thesis by (cases e) (simp_all add: run_defs)
next
  case (fetchone_fails e)
  then show ?thesis
    by (cases e; cases "db 24") (simp_all add: run_defs)
next
  case succeed
  then show ?thesis
    by (cases "db 24") (simp_all add: run_defs)
qed

lemma read_closed:
  "\<not> conn_open (snd (read_queue_status env db)) \<and>
   \<not> cursor_open (snd (read_queue_status env db))"
proof (cases rule: read_cases [of env])
  case (connect_fails e)
  then show ?thesis by (cases e) (simp_all add: run_defs)
next
  case (cursor_fails e)
  then show ?thesis by (cases e) (simp_all add: run_defs)
next
  case (execute_fails e)
  then show ?thesis by (cases e) (simp_all add: run_defs)
next
  case (fetchone_fails e)
  then show ?thesis
    by (cases e; cases "db 24") (simp_all add: run_defs)
next
  case succeed
  then show ?thesis
    by (cases "db 24") (simp_all add: run_defs)
qed

subsection \<open>From traces to driver calls\<close>

lemma in_trace_iff: "\<not> is_print ev \<Longrightarrow> ev \<in> set (trace s) \<longleftrightarrow> ev \<in> set (driver_calls s)"
  by (simp add: driver_calls_def)

lemma executes_filter: "executes (filter (\<lambda>ev. \<not> is_print ev) evs) = executes evs"
  by (induction evs rule: executes.induct) simp_all

lemma executes_driver_calls: "executes (trace s) = executes (driver_calls s)"
  by (simp add: driver_calls_def executes_filter)

lemma connect_not_print: "is_connect ev \<Longrightarrow> \<not> is_print ev"
  by (cases ev) simp_all

lemma cursor_not_print: "is_cursor ev \<Longrightarrow> \<not> is_print ev"
  by (cases ev) simp_all

lemma filter_connect_calls: "filter is_connect (trace s) = filter is_connect (driver_calls s)"
  unfolding driver_calls_def filter_filter
  by (rule filter_cong) (auto dest: connect_not_print)

lemma filter_cursor_calls: "filter is_cursor (trace s) = filter is_cursor (driver_calls s)"
  unfolding driver_calls_def filter_filter
  by (rule filter_cong) (auto dest: cursor_not_print)


section \<open>The claims\<close>

subsection \<open>C1: the Updater when no row has id 24\<close>

text \<open>
  C1, as the specification states it: when no row matches id 24 the Updater returns a
  failure outcome, reports the condition without raising, rolls the transaction back and
  changes nothing. On the empty table, with every driver call succeeding, the Updater
  returns \<open>False\<close>, but it has called \<^verbatim>\<open>conn.commit()\<close> (line 56 runs before the test
  of \<^verbatim>\<open>result\<close>) and never calls \<^verbatim>\<open>conn.rollback()\<close>.
\<close>

theorem no_row_commit_counterexample:
  "fst (update_queue_to_paused env_all_ok Map.empty) = Returned False \<and>
   Commit \<in> set (trace (snd (update_queue_to_paused env_all_ok Map.empty))) \<and>
   Rollback \<notin> set (trace (snd (update_queue_to_paused env_all_ok Map.empty)))"
  by (simp add: update_outcome in_trace_iff update_driver_calls update_calls_def succeed_defs env_all_ok_def)

text \<open>
  C1 as amended: when no row has id 24, the committed table after the run is the table
  before it, whatever the driver does, and the run never returns \<open>True\<close>; when no driver
  call fails, the run returns \<open>False\<close>, prints the no-rows line, commits the transaction
  (which changed nothing) and does not roll back.
\<close>

theorem update_no_row:
  "db 24 = None \<Longrightarrow>
     committed (snd (update_queue_to_paused env db)) = db \<and>
     fst (update_queue_to_paused env db) \<noteq> Returned True \<and>
     (all_succeed env \<longrightarrow>
        fst (update_queue_to_paused env db) = Returned False \<and>
        Print no_rows_line \<in> set (trace (snd (update_queue_to_paused env db))) \<and>
        Commit \<in> set (trace (snd (update_queue_to_paused env db))) \<and>
        Rollback \<notin> set (trace (snd (update_queue_to_paused env db))))"
proof (intro conjI impI)
  assume none: "db 24 = None"
  show "committed (snd (update_queue_to_paused env db)) = db"
    using none by (simp add: update_committed)
  show "fst (update_queue_to_paused env db) \<noteq> Returned True"
    using none by (simp add: update_outcome split: option.splits)
  assume ok: "all_succeed env"
  show "fst (update_queue_to_paused env db) = Returned False"
    using none ok by (simp add: update_outcome)
  show "Print no_rows_line \<in> set (trace (snd (update_queue_to_paused env db)))"
    using none ok by (simp add: run_defs succeed_defs)
  show "Commit \<in> set (trace (snd (update_queue_to_paused env db)))"
    using ok by (simp add: in_trace_iff update_driver_calls update_calls_def succeed_defs)
  show "Rollback \<notin> set (trace (snd (update_queue_to_paused env db)))"
    using ok by (simp add: in_trace_iff update_driver_calls update_calls_def succeed_defs)
qed

text \<open>C1 as amended, on the empty table with every driver call succeeding.\<close>

theorem update_no_row_witness:
  "Map.empty (24::int) = (None :: queue_row option) \<and> all_succeed env_all_ok \<and>
   committed (snd (update_queue_to_paused env_all_ok Map.empty)) = Map.empty \<and>
   fst (update_queue_to_paused env_all_ok Map.empty) = Returned False \<and>
   Print no_rows_line \<in> set (trace (snd (update_queue_to_paused env_all_ok Map.empty))) \<and>
   Commit \<in> set (trace (snd (update_queue_to_paused env_all_ok Map.empty))) \<and>
   Rollback \<notin> set (trace (snd (update_queue_to_paused env_all_ok Map.empty)))"
proof -
  have ok: "all_succeed env_all_ok"
    by (simp add: succeed_defs env_all_ok_def)
  show ?thesis
    using ok update_no_row [of Map.empty env_all_ok] by simp
qed

subsection \<open>C2: the Updater on an existing row\<close>



subsection \<open>C3: the Reader's verdict\<close>

text \<open>
  C3: the Reader returns \<open>True\<close> if and only if the row with id 24 is found (connect,
  cursor, execute and fetchone succeed and the table has the row) and its
  \<^verbatim>\<open>queue_status\<close> is exactly the string \<^verbatim>\<open>PAUSED\<close>; in every other case it returns
  \<open>False\<close>. String equality is equality of the character lists, so it distinguishes
  case.
\<close>

theorem read_verification:
  "(fst (read_queue_status env db) = Returned True \<longleftrightarrow>
      reads_succeed env \<and> (\<exists>r. db 24 = Some r \<and> queue_status r = ''PAUSED'')) \<and>
   (fst (read_queue_status env db) \<noteq> Returned True \<longrightarrow>
      fst (read_queue_status env db) = Returned False)"
  by (cases "db 24") (simp_all add: read_outcome)

text \<open>
  C3 on concrete tables: \<^verbatim>\<open>PAUSED\<close> is accepted; \<^verbatim>\<open>paused\<close>, \<^verbatim>\<open>ACTIVE\<close>, a missing
  row and a failing statement are not.
\<close>

theorem read_verification_witness:
  "fst (read_queue_status env_all_ok [24 \<mapsto> row_active\<lparr>queue_status := ''PAUSED''\<rparr>]) = Returned True \<and>
   fst (read_queue_status env_all_ok [24 \<mapsto> row_active\<lparr>queue_status := ''paused''\<rparr>]) = Returned False \<and>
   fst (read_queue_status env_all_ok [24 \<mapsto> row_active]) = Returned False \<and>
   fst (read_queue_status env_all_ok Map.empty) = Returned False \<and>
   fst (read_queue_status (env_all_ok\<lparr>execute_res := Some (DbError ''timeout'')\<rparr>)
          [24 \<mapsto> row_active\<lparr>queue_status := ''PAUSED''\<rparr>]) = Returned False"
proof -
  have ok: "reads_succeed env_all_ok"
    by (simp add: succeed_defs env_all_ok_def)
  have bad: "\<not> reads_succeed (env_all_ok\<lparr>execute_res := Some (DbError ''timeout'')\<rparr>)"
    by (simp add: succeed_defs env_all_ok_def)
  show ?thesis
    using ok bad
      read_verification [of env_all_ok "[24 \<mapsto> row_active\<lparr>queue_status := ''PAUSED''\<rparr>]"]
      read_verification [of env_all_ok "[24 \<mapsto> row_active\<lparr>queue_status := ''paused''\<rparr>]"]
      read_verification [of env_all_ok "[24 \<mapsto> row_active]"]
      read_verification [of env_all_ok Map.empty]
      read_verification [of "env_all_ok\<lparr>execute_res := Some (DbError ''timeout'')\<rparr>"
        "[24 \<mapsto> row_active\<lparr>queue_status := ''PAUSED''\<rparr>]"]
    by (simp add: row_active_def)
qed

subsection \<open>C4: exit codes and containment of errors\<close>

text \<open>
  C4: no error propagates past the top-level invocation of either script; every
  exception is turned into the failure exit code. The Updater does not achieve this. Its
  two handlers call \<^verbatim>\<open>conn.rollback()\<close> (lines 76 and 82) inside the \<^verbatim>\<open>except\<close>
  clause, where no clause catches what the call raises. On the input below the statement
  fails because the server has dropped the connection, the rollback on that connection
  raises in its turn, and this second exception leaves \<^verbatim>\<open>update_queue_to_paused\<close>
  and the script: the catch-all handler does not contain it.
\<close>

theorem updater_exception_escapes:
  "fst (update_queue_to_paused env_connection_lost [24 \<mapsto> row_active]) =
     Raised (DbError ''connection already closed'') \<and>
   updater_main env_connection_lost [24 \<mapsto> row_active] =
     Uncaught (DbError ''connection already closed'')"
  by (simp add: updater_main_def update_outcome succeed_defs env_connection_lost_def
      env_all_ok_def)

subsection \<open>C5: not found and mismatch are different reports\<close>



subsection \<open>C6: the statements sent\<close>

text \<open>
  C6: once connection and cursor exist, the Updater sends exactly one statement, the
  \<^verbatim>\<open>UPDATE\<close> with parameters \<^verbatim>\<open>('PAUSED', 24)\<close>, and the Reader exactly one, the
  \<^verbatim>\<open>SELECT\<close> with parameter \<^verbatim>\<open>(24,)\<close>; without them nothing is sent. The texts of the
  source are the statements of the specification, up to line breaks, indentation and the
  driver's way of writing a placeholder.
\<close>

theorem statements_sent:
  "executes (trace (snd (update_queue_to_paused env db))) =
     (if connect_res env = None \<and> cursor_res env = None
      then [(update_query, [PStr ''PAUSED'', PInt 24])] else []) \<and>
   executes (trace (snd (read_queue_status env db))) =
     (if connect_res env = None \<and> cursor_res env = None
      then [(select_query, [PInt 24])] else []) \<and>
   normalise_sql update_query = spec_update_statement \<and>
   normalise_sql select_query = spec_select_statement"
proof (intro conjI)
  show "executes (trace (snd (update_queue_to_paused env db))) =
      (if connect_res env = None \<and> cursor_res env = None
       then [(update_query, [PStr ''PAUSED'', PInt 24])] else [])"
    by (simp add: executes_driver_calls update_driver_calls update_calls_def)
  show "executes (trace (snd (read_queue_status env db))) =
      (if connect_res env = None \<and> cursor_res env = None
       then [(select_query, [PInt 24])] else [])"
    by (simp add: executes_driver_calls read_driver_calls read_calls_def)
  show "normalise_sql update_query = spec_update_statement"
    by (simp add: normalise_sql_def update_query_def spec_update_statement_def nl_def
        is_blank_def)
  show "normalise_sql select_query = spec_select_statement"
    by (simp add: normalise_sql_def select_query_def spec_select_statement_def nl_def
        is_blank_def)
qed

text \<open>C6 on a run that succeeds and on a run whose connection fails.\<close>

theorem statements_sent_witness:
  "executes (trace (snd (update_queue_to_paused env_all_ok [24 \<mapsto> row_active]))) =
     [(update_query, [PStr ''PAUSED'', PInt 24])] \<and>
   executes (trace (snd (read_queue_status env_all_ok [24 \<mapsto> row_active]))) =
     [(select_query, [PInt 24])] \<and>
   executes (trace (snd (update_queue_to_paused
      (env_all_ok\<lparr>connect_res := Some (DbError ''timeout'')\<rparr>) [24 \<mapsto> row_active]))) = []"
  using statements_sent [of env_all_ok "[24 \<mapsto> row_active]"]
    statements_sent [of "env_all_ok\<lparr>connect_res := Some (DbError ''timeout'')\<rparr>"
      "[24 \<mapsto> row_active]"]
  by (simp add: env_all_ok_def)

subsection \<open>C7: the Reader changes nothing\<close>

text \<open>
  C7: for every environment and every table, the committed table after the Reader's run
  is the table before it. The Reader never commits, sends at most its \<^verbatim>\<open>SELECT\<close>,
  opens one connection and leaves it closed.
\<close>

theorem read_no_mutation:
  "committed (snd (read_queue_status env db)) = db \<and>
   Commit \<notin> set (trace (snd (read_queue_status env db))) \<and>
   (executes (trace (snd (read_queue_status env db))) = [] \<or>
    executes (trace (snd (read_queue_status env db))) = [(select_query, [PInt 24])]) \<and>
   length (filter is_connect (trace (snd (read_queue_status env db)))) = 1 \<and>
   \<not> conn_open (snd (read_queue_status env db))"
proof (intro conjI)
  show "committed (snd (read_queue_status env db)) = db"
    by (rule read_committed)
  show "Commit \<notin> set (trace (snd (read_queue_status env db)))"
    by (simp add: in_trace_iff read_driver_calls read_calls_def)
  show "executes (trace (snd (read_queue_status env db))) = [] \<or>
      executes (trace (snd (read_queue_status env db))) = [(select_query, [PInt 24])]"
    by (simp add: executes_driver_calls read_driver_calls read_calls_def)
  show "length (filter is_connect (trace (snd (read_queue_status env db)))) = 1"
    by (simp add: filter_connect_calls read_driver_calls read_calls_def)
  show "\<not> conn_open (snd (read_queue_status env db))"
    using read_closed [of env db] by simp
qed

text \<open>C7 on the table with the one row.\<close>

theorem read_no_mutation_witness:
  "committed (snd (read_queue_status env_all_ok [24 \<mapsto> row_active])) = [24 \<mapsto> row_active] \<and>
   Commit \<notin> set (trace (snd (read_queue_status env_all_ok [24 \<mapsto> row_active])))"
  using read_no_mutation [of env_all_ok "[24 \<mapsto> row_active]"] by simp

subsection \<open>C8: connection and cursor are released\<close>

text \<open>
  C8: each script calls \<^verbatim>\<open>psycopg2.connect\<close> at most once and \<^verbatim>\<open>conn.cursor()\<close> at
  most once; when the function is left, by a return or by an exception, neither the
  connection nor the cursor is open; a connection that was opened has been closed, and so
  has a cursor.
\<close>

theorem handles_released:
  "length (filter is_connect (trace (snd (update_queue_to_paused env db)))) \<le> 1 \<and>
   length (filter is_cursor (trace (snd (update_queue_to_paused env db)))) \<le> 1 \<and>
   \<not> conn_open (snd (update_queue_to_paused env db)) \<and>
   \<not> cursor_open (snd (update_queue_to_paused env db)) \<and>
   (connect_res env = None \<longrightarrow>
      ConnClose \<in> set (trace (snd (update_queue_to_paused env db)))) \<and>
   (connect_res env = None \<and> cursor_res env = None \<longrightarrow>
      CursorClose \<in> set (trace (snd (update_queue_to_paused env db)))) \<and>
   length (filter is_connect (trace (snd (read_queue_status env db)))) \<le> 1 \<and>
   length (filter is_cursor (trace (snd (read_queue_status env db)))) \<le> 1 \<and>
   \<not> conn_open (snd (read_queue_status env db)) \<and>
   \<not> cursor_open (snd (read_queue_status env db)) \<and>
   (connect_res env = None \<longrightarrow>
      ConnClose \<in> set (trace (snd (read_queue_status env db)))) \<and>
   (connect_res env = None \<and> cursor_res env = None \<longrightarrow>
      CursorClose \<in> set (trace (snd (read_queue_status env db))))"
proof (intro conjI)
  show "length (filter is_connect (trace (snd (update_queue_to_paused env db)))) \<le> 1"
    by (simp add: filter_connect_calls update_driver_calls update_calls_def)
  show "length (filter is_cursor (trace (snd (update_queue_to_paused env db)))) \<le> 1"
    by (simp add: filter_cursor_calls update_driver_calls update_calls_def)
  show "\<not> conn_open (snd (update_queue_to_paused env db))"
    using update_closed [of env db] by simp
  show "\<not> cursor_open (snd (update_queue_to_paused env db))"
    using update_closed [of env db] by simp
  show "connect_res env = None \<longrightarrow>
      ConnClose \<in> set (trace (snd (update_queue_to_paused env db)))"
    by (simp add: in_trace_iff update_driver_calls update_calls_def)
  show "connect_res env = None \<and> cursor_res env = None \<longrightarrow>
      CursorClose \<in> set (trace (snd (update_queue_to_paused env db)))"
    by (simp add: in_trace_iff update_driver_calls update_calls_def)
  show "length (filter is_connect (trace (snd (read_queue_status env db)))) \<le> 1"
    by (simp add: filter_connect_calls read_driver_calls read_calls_def)
  show "length (filter is_cursor (trace (snd (read_queue_status env db)))) \<le> 1"
    by (simp add: filter_cursor_calls read_driver_calls read_calls_def)
  show "\<not> conn_open (snd (read_queue_status env db))"
    using read_closed [of env db] by simp
  show "\<not> cursor_open (snd (read_queue_status env db))"
    using read_closed [of env db] by simp
  show "connect_res env = None \<longrightarrow>
      ConnClose \<in> set (trace (snd (read_queue_status env db)))"
    by (simp add: in_trace_iff read_driver_calls read_calls_def)
  show "connect_res env = None \<and> cursor_res env = None \<longrightarrow>
      CursorClose \<in> set (trace (snd (read_queue_status env db)))"
    by (simp add: in_trace_iff read_driver_calls read_calls_def)
qed

text \<open>
  C8 on the run with the lost connection, which the Updater leaves by an exception: both
  handles are closed all the same.
\<close>

theorem handles_released_witness:
  "connect_res env_connection_lost = None \<and> cursor_res env_connection_lost = None \<and>
   fst (update_queue_to_paused env_connection_lost [24 \<mapsto> row_active]) =
     Raised (DbError ''connection already closed'') \<and>
   ConnClose \<in> set (trace (snd (update_queue_to_paused env_connection_lost [24 \<mapsto> row_active]))) \<and>
   CursorClose \<in> set (trace (snd (update_queue_to_paused env_connection_lost [24 \<mapsto> row_active]))) \<and>
   \<not> conn_open (snd (update_queue_to_paused env_connection_lost [24 \<mapsto> row_active])) \<and>
   ConnClose \<in> set (trace (snd (read_queue_status env_connection_lost [24 \<mapsto> row_active]))) \<and>
   CursorClose \<in> set (trace (snd (read_queue_status env_connection_lost [24 \<mapsto> row_active])))"
proof -
  have lost: "fst (update_queue_to_paused env_connection_lost [24 \<mapsto> row_active]) =
      Raised (DbError ''connection already closed'')"
    by (simp add: update_outcome succeed_defs env_connection_lost_def env_all_ok_def)
  have opened: "connect_res env_connection_lost = None \<and> cursor_res env_connection_lost = None"
    by (simp add: env_connection_lost_def env_all_ok_def)
  show ?thesis
    using lost opened handles_released [of env_connection_lost "[24 \<mapsto> row_active]"]
    by simp
qed

subsection \<open>C9: running the Updater twice\<close>

text \<open>
  C9, as the specification states it: two runs in succession leave
  \<^verbatim>\<open>queue_status = 'PAUSED'\<close> both times, with \<^verbatim>\<open>updated_at\<close> strictly increasing on
  each call. The Updater writes the server's \<^verbatim>\<open>NOW()\<close> and never looks at the stored
  value. On a row whose \<^verbatim>\<open>updated_at\<close> is 500, at server time 100, the first run
  succeeds and moves \<^verbatim>\<open>updated_at\<close> back to 100, and a second run at the same server
  time leaves it at 100: it increases on neither call.
\<close>

theorem update_backwards_counterexample:
  "updated_at (row_active\<lparr>updated_at := 500\<rparr>) = 500 \<and>
   fst (update_queue_to_paused env_all_ok [24 \<mapsto> row_active\<lparr>updated_at := 500\<rparr>]) =
     Returned True \<and>
   map_option updated_at
     (committed (snd (update_queue_to_paused env_all_ok
        [24 \<mapsto> row_active\<lparr>updated_at := 500\<rparr>])) 24) = Some 100 \<and>
   fst (update_queue_to_paused env_all_ok
     (committed (snd (update_queue_to_paused env_all_ok
        [24 \<mapsto> row_active\<lparr>updated_at := 500\<rparr>])))) = Returned True \<and>
   map_option updated_at
     (committed (snd (update_queue_to_paused env_all_ok
        (committed (snd (update_queue_to_paused env_all_ok
           [24 \<mapsto> row_active\<lparr>updated_at := 500\<rparr>]))))) 24) = Some 100"
proof -
  have ok: "all_succeed env_all_ok"
    by (simp add: succeed_defs env_all_ok_def)
  have now: "server_now env_all_ok = 100"
    by (simp add: env_all_ok_def)
  show ?thesis
    using ok now by (simp add: update_outcome update_committed)
qed

text \<open>
  C9 as amended: two successful runs in succession on a table with row 24 both return
  \<open>True\<close> and both leave \<^verbatim>\<open>queue_status = 'PAUSED'\<close>; the table after the second run
  is the one a single run at the second server time would leave. After each run
  \<^verbatim>\<open>updated_at\<close> is the server time of that run, whatever was stored before: it is
  later than the value before the run exactly when that server time is.
\<close>

theorem update_twice:
  "db 24 = Some r \<Longrightarrow> all_succeed env1 \<Longrightarrow> all_succeed env2 \<Longrightarrow>
     fst (update_queue_to_paused env1 db) = Returned True \<and>
     fst (update_queue_to_paused env2 (committed (snd (update_queue_to_paused env1 db)))) =
       Returned True \<and>
     committed (snd (update_queue_to_paused env1 db)) =
       db(24 \<mapsto> r\<lparr>queue_status := ''PAUSED'', updated_at := server_now env1\<rparr>) \<and>
     committed (snd (update_queue_to_paused env2
         (committed (snd (update_queue_to_paused env1 db))))) =
       db(24 \<mapsto> r\<lparr>queue_status := ''PAUSED'', updated_at := server_now env2\<rparr>) \<and>
     committed (snd (update_queue_to_paused env2
         (committed (snd (update_queue_to_paused env1 db))))) =
       committed (snd (update_queue_to_paused env2 db)) \<and>
     map_option queue_status (committed (snd (update_queue_to_paused env1 db)) 24) =
       Some ''PAUSED'' \<and>
     map_option queue_status (committed (snd (update_queue_to_paused env2
         (committed (snd (update_queue_to_paused env1 db))))) 24) = Some ''PAUSED'' \<and>
     map_option updated_at (committed (snd (update_queue_to_paused env1 db)) 24) =
       Some (server_now env1) \<and>
     map_option updated_at (committed (snd (update_queue_to_paused env2
         (committed (snd (update_queue_to_paused env1 db))))) 24) = Some (server_now env2)"
proof -
  assume row: "db 24 = Some r" and ok1: "all_succeed env1" and ok2: "all_succeed env2"
  let ?r1 = "r\<lparr>queue_status := ''PAUSED'', updated_at := server_now env1\<rparr>"
  let ?r2 = "r\<lparr>queue_status := ''PAUSED'', updated_at := server_now env2\<rparr>"
  have first: "committed (snd (update_queue_to_paused env1 db)) = db(24 \<mapsto> ?r1)"
    using row ok1 by (simp add: update_committed)
  have second: "committed (snd (update_queue_to_paused env2 (db(24 \<mapsto> ?r1)))) = db(24 \<mapsto> ?r2)"
    using ok2 by (simp add: update_committed)
  have once: "committed (snd (update_queue_to_paused env2 db)) = db(24 \<mapsto> ?r2)"
    using row ok2 by (simp add: update_committed)
  have ret1: "fst (update_queue_to_paused env1 db) = Returned True"
    using row ok1 by (simp add: update_outcome)
  have ret2: "fst (update_queue_to_paused env2 (db(24 \<mapsto> ?r1))) = Returned True"
    using ok2 by (simp add: update_outcome)
  show ?thesis
    using first second once ret1 ret2 by simp
qed

text \<open>
  C9 as amended, on the row with \<^verbatim>\<open>updated_at = 2\<close> at server times 100 and 200, where
  the clock is ahead of the stored value and \<^verbatim>\<open>updated_at\<close> does advance.
\<close>

theorem update_twice_witness:
  "[24 \<mapsto> row_active] (24::int) = Some row_active \<and> all_succeed env_all_ok \<and>
   all_succeed (env_all_ok\<lparr>server_now := 200\<rparr>) \<and>
   committed (snd (update_queue_to_paused env_all_ok [24 \<mapsto> row_active])) =
     [24 \<mapsto> \<lparr>clinic_id = 7, queue_status = ''PAUSED'', created_at = 1, updated_at = 100\<rparr>] \<and>
   committed (snd (update_queue_to_paused (env_all_ok\<lparr>server_now := 200\<rparr>)
       (committed (snd (update_queue_to_paused env_all_ok [24 \<mapsto> row_active]))))) =
     [24 \<mapsto> \<lparr>clinic_id = 7, queue_status = ''PAUSED'', created_at = 1, updated_at = 200\<rparr>]"
proof -
  have row: "[24 \<mapsto> row_active] (24::int) = Some row_active"
    by simp
  have ok1: "all_succeed env_all_ok"
    by (simp add: succeed_defs env_all_ok_def)
  have ok2: "all_succeed (env_all_ok\<lparr>server_now := 200\<rparr>)"
    by (simp add: succeed_defs env_all_ok_def)
  have now: "server_now env_all_ok = 100"
    by (simp add: env_all_ok_def)
  note twice = update_twice [of "[24 \<mapsto> row_active]" row_active env_all_ok
      "env_all_ok\<lparr>server_now := 200\<rparr>", OF row ok1 ok2]
  have first: "committed (snd (update_queue_to_paused env_all_ok [24 \<mapsto> row_active])) =
      [24 \<mapsto> row_active, 24 \<mapsto>
         row_active\<lparr>queue_status := ''PAUSED'', updated_at := server_now env_all_ok\<rparr>]"
    using twice by blast
  have second: "committed (snd (update_queue_to_paused (env_all_ok\<lparr>server_now := 200\<rparr>)
        (committed (snd (update_queue_to_paused env_all_ok [24 \<mapsto> row_active]))))) =
      [24 \<mapsto> row_active, 24 \<mapsto>
         row_active\<lparr>queue_status := ''PAUSED'',
           updated_at := server_now (env_all_ok\<lparr>server_now := 200\<rparr>)\<rparr>]"
    using twice by blast
  have lit1: "committed (snd (update_queue_to_paused env_all_ok [24 \<mapsto> row_active])) =
      [24 \<mapsto> \<lparr>clinic_id = 7, queue_status = ''PAUSED'', created_at = 1, updated_at = 100\<rparr>]"
    unfolding first by (simp add: now row_active_def)
  have lit2: "committed (snd (update_queue_to_paused (env_all_ok\<lparr>server_now := 200\<rparr>)
        (committed (snd (update_queue_to_paused env_all_ok [24 \<mapsto> row_active]))))) =
      [24 \<mapsto> \<lparr>clinic_id = 7, queue_status = ''PAUSED'', created_at = 1, updated_at = 200\<rparr>]"
    unfolding second by (simp add: row_active_def)
  show ?thesis
    using row ok1 ok2 lit1 lit2 by blast
qed

subsection \<open>C10: a connection that cannot be established\<close>

text \<open>
  C10: when \<^verbatim>\<open>psycopg2.connect\<close> raises, both functions return \<open>False\<close> and both
  scripts end with status 1, and the only driver call of the run is that \<^verbatim>\<open>connect\<close>:
  no rollback and no close is attempted. In no run at all is a method called on a variable
  that holds \<open>None\<close>.
\<close>

theorem connect_failure:
  "(connect_res env = Some e \<longrightarrow>
      fst (update_queue_to_paused env db) = Returned False \<and>
      fst (read_queue_status env db) = Returned False \<and>
      exit_status (updater_main env db) = 1 \<and>
      exit_status (reader_main env db) = 1 \<and>
      driver_calls (snd (update_queue_to_paused env db)) = [Connect DB_HOST DB_PORT] \<and>
      driver_calls (snd (read_queue_status env db)) = [Connect DB_HOST DB_PORT]) \<and>
   (\<forall>m. NoneCall m \<notin> set (trace (snd (update_queue_to_paused env db)))) \<and>
   (\<forall>m. NoneCall m \<notin> set (trace (snd (read_queue_status env db))))"
proof (intro conjI impI allI)
  fix m
  show "NoneCall m \<notin> set (trace (snd (update_queue_to_paused env db)))"
    by (simp add: in_trace_iff update_driver_calls update_calls_def)
  show "NoneCall m \<notin> set (trace (snd (read_queue_status env db)))"
    by (simp add: in_trace_iff read_driver_calls read_calls_def)
next
  assume fails: "connect_res env = Some e"
  show "fst (update_queue_to_paused env db) = Returned False"
    using fails by (simp add: update_outcome succeed_defs)
  show "fst (read_queue_status env db) = Returned False"
    using fails by (simp add: read_outcome succeed_defs)
  show "exit_status (updater_main env db) = 1"
    using fails by (simp add: updater_main_def update_outcome succeed_defs)
  show "exit_status (reader_main env db) = 1"
    using fails by (simp add: reader_main_def read_outcome succeed_defs)
  show "driver_calls (snd (update_queue_to_paused env db)) = [Connect DB_HOST DB_PORT]"
    using fails by (simp add: update_driver_calls update_calls_def)
  show "driver_calls (snd (read_queue_status env db)) = [Connect DB_HOST DB_PORT]"
    using fails by (simp add: read_driver_calls read_calls_def)
qed

text \<open>
  C10 on the unreachable server; its environment would make a rollback raise, had one
  been attempted.
\<close>

theorem connect_failure_witness:
  "connect_res env_unreachable = Some (DbError ''could not connect to server'') \<and>
   fst (update_queue_to_paused env_unreachable [24 \<mapsto> row_active]) = Returned False \<and>
   fst (read_queue_status env_unreachable [24 \<mapsto> row_active]) = Returned False \<and>
   exit_status (updater_main env_unreachable [24 \<mapsto> row_active]) = 1 \<and>
   exit_status (reader_main env_unreachable [24 \<mapsto> row_active]) = 1 \<and>
   driver_calls (snd (update_queue_to_paused env_unreachable [24 \<mapsto> row_active])) =
     [Connect DB_HOST DB_PORT]"
proof -
  have fails: "connect_res env_unreachable = Some (DbError ''could not connect to server'')"
    by (simp add: env_unreachable_def env_all_ok_def)
  show ?thesis
    using fails
      connect_failure [of env_unreachable "DbError ''could not connect to server''"
        "[24 \<mapsto> row_active]"]
    by simp
qed

end
